theory Spec2Isabelle
  imports Complex_Main
begin

section \<open>Conventions of the embedding\<close>

text \<open>
  The Python sources compute on numpy arrays of 64-bit floats.  The embedding reads a
  float as a \<^typ>\<open>real\<close> and a one-dimensional array as a \<^typ>\<open>real list\<close>;
  infinities and NaN are outside the model, and so is rounding, except where a section
  below takes the rounding function of the machine as a parameter.  Every exception of
  the source that the properties below depend on is a constructor of \<open>error\<close>, and a
  function that can raise returns \<open>error + 'a\<close>.
\<close>

datatype error =
    DeviationProfileError  \<comment> \<open>\<open>ValueError\<close> raised by \<open>_check_up_down_deviations\<close>\<close>
  | UnpackError            \<comment> \<open>\<open>ValueError\<close> of a tuple assignment with the wrong number of values\<close>
  | SeedError              \<comment> \<open>\<open>ValueError\<close> of \<open>np.random.seed\<close> on a seed it does not accept\<close>
  | NegativeDimensions     \<comment> \<open>\<open>ValueError\<close> of \<open>np.empty\<close> on a negative dimension\<close>
  | AllocationError        \<comment> \<open>\<open>ValueError\<close> or \<open>MemoryError\<close> of \<open>np.empty\<close> on a size it cannot allocate\<close>
  | ShapeError             \<comment> \<open>\<open>ValueError\<close> of an operation on arrays whose shapes do not fit\<close>
  | EmptyReduction         \<comment> \<open>\<open>ValueError\<close> of \<open>np.max\<close> on an empty array\<close>
  | IndexError             \<comment> \<open>\<open>IndexError\<close> of an index outside an array\<close>
  | NotFinite              \<comment> \<open>no exception: the float result is \<open>inf\<close> or \<open>nan\<close>\<close>

section \<open>Floating-point arithmetic\<close>

text \<open>
  An arithmetic operation of the source on two floats returns the exact result rounded
  to a float.  Where a property turns on the outcome of a comparison or of an equality
  test of computed floats, the model rounds where the code does: the rounding function
  \<open>rnd\<close> of the machine is a parameter of the functions concerned (for numpy and Python
  it is binary64 rounding to nearest), their arguments are floats read as reals, and
  \<open>rnd (x + y)\<close> is the float sum of \<open>x\<close> and \<open>y\<close>.  Overflow to \<open>inf\<close> is outside the
  model.
\<close>

text \<open>
  A rounding function to run the model on: to the nearest multiple of \<open>10^-6\<close>, halves
  upwards.
\<close>

definition decimal6 :: "real \<Rightarrow> real" where
  "decimal6 x = of_int \<lfloor>x * 10 ^ 6 + 1 / 2\<rfloor> / 10 ^ 6"

section \<open>Deviation profiles (rebidding.py, analytics.py)\<close>

text \<open>
  Modelled from the spec: \<open>_ordered_deviations\<close> of the module \<open>analytics\<close>, which is
  imported by rebidding.py and is not among the sources.  The spec calls the result an
  "ordered deviation set" that holds the "zero-deviation" (equilibrium) entry: the
  deviations together with 0, without repetition, in increasing order.  The three-way
  unpacking in \<open>RefinedMultistageIsNonCompetitive.__init__\<close> relies on exactly this.
\<close>

definition ordered_deviations :: "real list \<Rightarrow> real list" where
  "ordered_deviations deviations = sort (remdups (0 # deviations))"

text \<open>\<open>sum(dev < 0)\<close> and \<open>sum(dev > 0)\<close> count the entries that satisfy the comparison.\<close>

definition check_up_down_deviations :: "real list \<Rightarrow> error + unit" where
  "check_up_down_deviations deviations =
     (let dev = ordered_deviations deviations in
      if length (filter (\<lambda>d. d < 0) dev) \<noteq> 1 \<or> length (filter (\<lambda>d. d > 0) dev) \<noteq> 1
      then Inl DeviationProfileError
      else Inr ())"

text \<open>
  Modelled from the spec: the constructor of \<open>DimensionlessCollusionMetrics\<close> (module
  \<open>analytics\<close>, not among the sources), which both metrics below inherit.  The spec: a
  metric is "parameterized by an ordered deviation set"; the constructor stores that set
  as \<open>self._deviations\<close>.
\<close>

definition DimensionlessCollusionMetrics_init :: "real list \<Rightarrow> real list" where
  "DimensionlessCollusionMetrics_init deviations = ordered_deviations deviations"

section \<open>The refined multistage metric (rebidding.py)\<close>

record refined_metric =
  deviations_of :: "real list"
  rho_down :: real
  rho_up :: real

definition coeff_marginal_cont :: real where
  "coeff_marginal_cont = 1"

definition coeff_marginal_info :: real where
  "coeff_marginal_info = 0.5"

text \<open>
  \<open>RefinedMultistageIsNonCompetitive.__init__\<close>: the check, then the constructor of the
  base class, then the unpacking of \<open>self._deviations\<close> into three names, which raises
  unless there are exactly three values.
\<close>

definition RefinedMultistageIsNonCompetitive_init :: "real list \<Rightarrow> error + refined_metric" where
  "RefinedMultistageIsNonCompetitive_init deviations =
     (case check_up_down_deviations deviations of
        Inl e \<Rightarrow> Inl e
      | Inr _ \<Rightarrow>
          (let devs = DimensionlessCollusionMetrics_init deviations in
           case devs of
             [d, _, u] \<Rightarrow> Inr \<lparr>deviations_of = devs, rho_down = d, rho_up = u\<rparr>
           | _ \<Rightarrow> Inl UnpackError))"

text \<open>\<open>_get_payoffs\<close>: the environment is unpacked into seven names.\<close>

definition get_payoffs :: "refined_metric \<Rightarrow> real list \<Rightarrow> error + real list" where
  "get_payoffs m env =
     (case env of
        [win_down, marg_cont, marg_info, reserve, win0, win_up, cost] \<Rightarrow>
          (let v = reserve - cost;
               payoff_down = win_down * (1 + rho_down m - cost) +
                             marg_cont * coeff_marginal_cont * v +
                             marg_info * coeff_marginal_info * coeff_marginal_cont * v
           in Inr [payoff_down,
                   win0 * (1 - cost),
                   win_up * (1 + rho_up m - cost)])
      | _ \<Rightarrow> Inl UnpackError)"

section \<open>The multistage metric (rebidding.py)\<close>

subsection \<open>The numpy operations it uses, on one-dimensional arrays\<close>

definition np_max :: "real list \<Rightarrow> error + real" where
  "np_max xs = (case xs of [] \<Rightarrow> Inl EmptyReduction | x # rest \<Rightarrow> Inr (fold max rest x))"

text \<open>
  An elementwise operation of two arrays: equal lengths, or one of them of length one,
  which numpy stretches; any other pair of lengths is a \<open>ValueError\<close>.
\<close>

definition np_elementwise :: "(real \<Rightarrow> real \<Rightarrow> real) \<Rightarrow> real list \<Rightarrow> real list \<Rightarrow> error + real list" where
  "np_elementwise f xs ys =
     (if length xs = length ys then Inr (map2 f xs ys)
      else if length xs = 1 then Inr (map (f (hd xs)) ys)
      else if length ys = 1 then Inr (map (\<lambda>x. f x (hd ys)) xs)
      else Inl ShapeError)"

definition np_index :: "real list \<Rightarrow> nat \<Rightarrow> error + real" where
  "np_index xs i = (if i < length xs then Inr (xs ! i) else Inl IndexError)"

subsection \<open>What the metric inherits\<close>

text \<open>
  \<open>MultistageIsNonCompetitive\<close> inherits its constructor, \<open>equilibrium_index\<close> and
  \<open>_get_payoffs\<close> from \<open>DimensionlessCollusionMetrics\<close> (module \<open>analytics\<close>, not among
  the sources).
\<close>

record multistage_metric =
  ms_deviations :: "real list"

definition MultistageIsNonCompetitive_init :: "real list \<Rightarrow> multistage_metric" where
  "MultistageIsNonCompetitive_init deviations =
     \<lparr>ms_deviations = DimensionlessCollusionMetrics_init deviations\<rparr>"

text \<open>
  Modelled from the spec: \<open>equilibrium_index\<close> of \<open>DimensionlessCollusionMetrics\<close> (module
  \<open>analytics\<close>, not among the sources).  The spec speaks of "the equilibrium
  (zero-deviation) payoff": the index is the position of the deviation 0 in the ordered
  deviation set.
\<close>

definition equilibrium_index :: "multistage_metric \<Rightarrow> nat" where
  "equilibrium_index m = length (takeWhile (\<lambda>d. d \<noteq> 0) (ms_deviations m))"

text \<open>
  Modelled from the spec: \<open>_get_payoffs\<close> of \<open>DimensionlessCollusionMetrics\<close> (module
  \<open>analytics\<close>, not among the sources).  The spec: the payoff of a deviation is
  "(win-probability-at-that-deviation) \<times> (1 + deviation - cost)".  The environment of
  such a metric holds one win probability per entry of the ordered deviation set,
  followed by the cost, as the environment \<open>[.5, .4, .3, .8]\<close> of tests.py does for the
  deviations \<open>-.02, 0, .02\<close>; the product is elementwise.
\<close>

definition DimensionlessCollusionMetrics_get_payoffs ::
    "(real \<Rightarrow> real) \<Rightarrow> multistage_metric \<Rightarrow> real list \<Rightarrow> error + real list" where
  "DimensionlessCollusionMetrics_get_payoffs rnd m env =
     (if env = [] then Inl IndexError
      else
        (let beliefs = butlast env;
             cost = last env
         in np_elementwise (\<lambda>b f. rnd (b * f))
              beliefs
              (map (\<lambda>d. rnd (rnd (1 + d) - cost)) (ms_deviations m))))"

subsection \<open>The metric\<close>

definition max_win_prob :: real where
  "max_win_prob = 1"

definition all_upward_dev :: "multistage_metric \<Rightarrow> bool" where
  "all_upward_dev m = list_all (\<lambda>d. d \<ge> 0) (ms_deviations m)"

definition get_penalty :: "(real \<Rightarrow> real) \<Rightarrow> multistage_metric \<Rightarrow> real list \<Rightarrow> error + real list" where
  "get_penalty rnd m env =
     (let downward_beliefs = take (equilibrium_index m) env
      in np_elementwise (\<lambda>a d. rnd (a * d))
           (map (\<lambda>b. rnd (max_win_prob - b)) downward_beliefs)
           (take (equilibrium_index m) (ms_deviations m)))"

definition upward_non_ic :: "(real \<Rightarrow> real) \<Rightarrow> multistage_metric \<Rightarrow> real list \<Rightarrow> error + bool" where
  "upward_non_ic rnd m env =
     (case DimensionlessCollusionMetrics_get_payoffs rnd m env of
        Inl e \<Rightarrow> Inl e
      | Inr payoffs \<Rightarrow>
          (let upward_payoffs = drop (equilibrium_index m) payoffs in
           case np_max upward_payoffs of
             Inl e \<Rightarrow> Inl e
           | Inr best \<Rightarrow>
               (case np_index upward_payoffs 0 of
                  Inl e \<Rightarrow> Inl e
                | Inr eq \<Rightarrow> Inr (best > eq))))"

definition downward_non_ic :: "(real \<Rightarrow> real) \<Rightarrow> multistage_metric \<Rightarrow> real list \<Rightarrow> error + bool" where
  "downward_non_ic rnd m env =
     (if all_upward_dev m then Inr False
      else
        case DimensionlessCollusionMetrics_get_payoffs rnd m env of
          Inl e \<Rightarrow> Inl e
        | Inr payoffs \<Rightarrow>
            (case get_penalty rnd m env of
               Inl e \<Rightarrow> Inl e
             | Inr penalty \<Rightarrow>
                 (case np_elementwise (\<lambda>p q. rnd (p + q))
                         (take (equilibrium_index m) payoffs) penalty of
                    Inl e \<Rightarrow> Inl e
                  | Inr adjusted \<Rightarrow>
                      (case np_max adjusted of
                         Inl e \<Rightarrow> Inl e
                       | Inr best \<Rightarrow>
                           (case np_index payoffs (equilibrium_index m) of
                              Inl e \<Rightarrow> Inl e
                            | Inr eq \<Rightarrow> Inr (best > eq))))))"

text \<open>\<open>__call__\<close>: both checks are evaluated, the downward one first, and joined by \<open>|\<close>.\<close>

definition MultistageIsNonCompetitive_call ::
    "(real \<Rightarrow> real) \<Rightarrow> multistage_metric \<Rightarrow> real list \<Rightarrow> error + bool" where
  "MultistageIsNonCompetitive_call rnd m env =
     (case downward_non_ic rnd m env of
        Inl e \<Rightarrow> Inl e
      | Inr down \<Rightarrow>
          (case upward_non_ic rnd m env of
             Inl e \<Rightarrow> Inl e
           | Inr up \<Rightarrow> Inr (down \<or> up)))"

text \<open>
  The payoff of one deviation and the penalty of one downward deviation, entry by entry
  as the functions above compute them, for stating what the metric returns.
\<close>

definition deviation_payoff :: "(real \<Rightarrow> real) \<Rightarrow> real \<Rightarrow> real \<Rightarrow> real \<Rightarrow> real" where
  "deviation_payoff rnd win_prob deviation cost = rnd (win_prob * rnd (rnd (1 + deviation) - cost))"


section \<open>The refined multistage environment generator (rebidding.py)\<close>

subsection \<open>numpy's global random generator\<close>

text \<open>
  \<open>np.random\<close> is a process-wide generator.  Its state is a value of a type \<open>'g\<close>, passed
  in and returned; the generator itself is a parameter of the model:
  \<^item> \<open>seed_state s\<close> is the state that \<open>np.random.seed(s)\<close> installs, or \<open>None\<close> when numpy
    rejects \<open>s\<close> with a \<open>ValueError\<close>;
  \<^item> \<open>next_double g\<close> is one draw and the state after it.
\<close>

record 'g np_random =
  seed_state :: "int \<Rightarrow> 'g option"
  next_double :: "'g \<Rightarrow> real \<times> 'g"

text \<open>\<open>np.random.rand(n)\<close>: \<open>n\<close> draws in a row.\<close>

fun rand :: "'g np_random \<Rightarrow> nat \<Rightarrow> 'g \<Rightarrow> real list \<times> 'g" where
  "rand R 0 g = ([], g)"
| "rand R (Suc n) g =
     (case next_double R g of (x, g') \<Rightarrow>
        (case rand R n g' of (xs, g'') \<Rightarrow> (x # xs, g'')))"

text \<open>\<open>np.random.rand(n, k)\<close>: \<open>n\<close> rows of \<open>k\<close> draws, filled row by row.\<close>

fun rand2 :: "'g np_random \<Rightarrow> nat \<Rightarrow> nat \<Rightarrow> 'g \<Rightarrow> real list list \<times> 'g" where
  "rand2 R 0 k g = ([], g)"
| "rand2 R (Suc n) k g =
     (case rand R k g of (row, g') \<Rightarrow>
        (case rand2 R n k g' of (rows, g'') \<Rightarrow> (row # rows, g'')))"

subsection \<open>Two-dimensional arrays as lists of rows\<close>

text \<open>
  \<open>np.empty((n, k))\<close> allocates without initialising: the content is whatever the memory
  held, here the parameter \<open>mem\<close>.
\<close>

definition np_empty :: "(nat \<Rightarrow> nat \<Rightarrow> real) \<Rightarrow> nat \<Rightarrow> nat \<Rightarrow> real list list" where
  "np_empty mem n k = map (\<lambda>i. map (mem i) [0..<k]) [0..<n]"

text \<open>\<open>env[:, j]\<close> read, \<open>env[:, j] = col\<close> and \<open>env[:, js] = block\<close>.\<close>

definition column :: "nat \<Rightarrow> real list list \<Rightarrow> real list" where
  "column j env = map (\<lambda>row. row ! j) env"

definition set_column :: "nat \<Rightarrow> real list \<Rightarrow> real list list \<Rightarrow> real list list" where
  "set_column j col env = map2 (\<lambda>row v. row[j := v]) env col"

definition set_columns :: "nat list \<Rightarrow> real list list \<Rightarrow> real list list \<Rightarrow> real list list" where
  "set_columns js block env =
     map2 (\<lambda>row vals. fold (\<lambda>(j, v) r. r[j := v]) (zip js vals) row) env block"

text \<open>
  Modelled from the spec: \<open>descending_sort\<close> of the module \<open>environments\<close>, which is
  imported by rebidding.py and is not among the sources.  The spec: the ordering is
  imposed "by sorting the relevant sub-vector in descending order per sample".
\<close>

definition descending_sort :: "real list list \<Rightarrow> real list list" where
  "descending_sort arr = map (\<lambda>row. rev (sort row)) arr"

subsection \<open>The generator\<close>

text \<open>The column numbers that \<open>range(7)\<close> gives to the seven names.\<close>

definition col_win_down :: nat where "col_win_down = 0"
definition col_marg_cont :: nat where "col_marg_cont = 1"
definition col_marg_info :: nat where "col_marg_info = 2"
definition col_reserve :: nat where "col_reserve = 3"
definition col_win0 :: nat where "col_win0 = 4"
definition col_win_up :: nat where "col_win_up = 5"
definition col_cost :: nat where "col_cost = 6"

text \<open>
  \<open>_generate_raw_environments(num, seed)\<close>.  The arguments beside the source's two are
  the generator \<open>R\<close>, the content \<open>mem\<close> of the memory that \<open>np.empty\<close> hands out and the
  state \<open>g0\<close> of the global generator when the call starts; the result holds the array
  and the state of the global generator when the call returns.  \<open>num\<close> is the integer
  that \<open>int(num)\<close> yields.
\<close>

definition generate_raw_environments ::
    "'g np_random \<Rightarrow> (nat \<Rightarrow> nat \<Rightarrow> real) \<Rightarrow> 'g \<Rightarrow> int \<Rightarrow> int \<Rightarrow> error + (real list list \<times> 'g)" where
  "generate_raw_environments R mem g0 num seed =
     (case seed_state R seed of
        None \<Rightarrow> Inl SeedError
      | Some g1 \<Rightarrow>
          if num < 0 then Inl NegativeDimensions
          else
            (let n = nat num;
                 env0 = np_empty mem n 7;
                 (wins, g2) = rand2 R n 3 g1;
                 env1 = set_columns [col_win_down, col_win0, col_win_up] (descending_sort wins) env0;
                 (u_reserve, g3) = rand R n g2;
                 env2 = set_column col_reserve u_reserve env1;
                 (u_cont, g4) = rand R n g3;
                 env3 = set_column col_marg_cont
                          (map2 (*) u_cont
                             (map2 (-) (column col_win_down env2) (column col_win0 env2))) env2;
                 (u_info, g5) = rand R n g4;
                 env4 = set_column col_marg_info
                          (map2 (*) u_info (map (\<lambda>w. 1 - w) (column col_win_down env3))) env3;
                 (u_cost, g6) = rand R n g5;
                 env5 = set_column col_cost u_cost env4
             in Inr (env5, g6)))"

text \<open>
  A small generator to run the model on: the state is a counter, the draw at
  counter \<open>g\<close> is \<open>((37 g + 11) mod 1000) / 1000\<close>, and a seed is accepted when it lies in
  \<open>0 \<le> seed < 2^32\<close>.
\<close>

definition counter_random :: "nat np_random" where
  "counter_random =
     \<lparr>seed_state = (\<lambda>s. if 0 \<le> s \<and> s < 2 ^ 32 then Some (nat s) else None),
      next_double = (\<lambda>g. (real ((g * 37 + 11) mod 1000) / 1000, g + 1))\<rparr>"

definition zero_memory :: "nat \<Rightarrow> nat \<Rightarrow> real" where
  "zero_memory i j = 0"

text \<open>The row that the generator assembles from the draws of one sample.\<close>

definition raw_row :: "real list \<Rightarrow> real \<Rightarrow> real \<Rightarrow> real \<Rightarrow> real \<Rightarrow> real list" where
  "raw_row w u_reserve u_cont u_info u_cost =
     (let s = rev (sort w) in
      [s ! 0, u_cont * (s ! 0 - s ! 1), u_info * (1 - s ! 0), u_reserve, s ! 1, s ! 2, u_cost])"

subsection \<open>The generator on a machine with bounded memory\<close>

text \<open>
  \<open>np.empty((num, 7))\<close> raises not only for a negative \<open>num\<close>: for a size that the machine
  cannot allocate it raises a \<open>ValueError\<close> (dimension too large) or a \<open>MemoryError\<close>.
  \<open>max_rows\<close> is the largest number of rows that the machine allocates, a parameter
  (on a 64-bit machine it is below \<open>2^63 / 56\<close>, the rows being seven floats of eight
  bytes); a call within it runs as above.
\<close>

definition generate_raw_environments_bounded ::
    "nat \<Rightarrow> 'g np_random \<Rightarrow> (nat \<Rightarrow> nat \<Rightarrow> real) \<Rightarrow> 'g \<Rightarrow> int \<Rightarrow> int \<Rightarrow> error + (real list list \<times> 'g)" where
  "generate_raw_environments_bounded max_rows R mem g0 num seed =
     (case seed_state R seed of
        None \<Rightarrow> Inl SeedError
      | Some g1 \<Rightarrow>
          if num < 0 then Inl NegativeDimensions
          else if max_rows < nat num then Inl AllocationError
          else generate_raw_environments R mem g0 num seed)"

section \<open>The moment constraint of the asymptotic problem (mb\_api/asymptotics.py)\<close>

subsection \<open>Two-dimensional arrays with their shape\<close>

record array2 =
  n_rows :: nat
  n_cols :: nat
  cell :: "nat \<Rightarrow> nat \<Rightarrow> real"

text \<open>The array with the given rows, for writing arrays down.\<close>

definition array_of_rows :: "real list list \<Rightarrow> array2" where
  "array_of_rows rows =
     \<lparr>n_rows = length rows,
      n_cols = (case rows of [] \<Rightarrow> 0 | r # _ \<Rightarrow> length r),
      cell = (\<lambda>i j. rows ! i ! j)\<rparr>"

definition transposed :: "array2 \<Rightarrow> array2" where
  "transposed A = \<lparr>n_rows = n_cols A, n_cols = n_rows A, cell = (\<lambda>i j. cell A j i)\<rparr>"

text \<open>\<open>cvxpy.matmul\<close>: the inner dimensions must agree.\<close>

definition matmul :: "array2 \<Rightarrow> array2 \<Rightarrow> error + array2" where
  "matmul A B =
     (if n_cols A \<noteq> n_rows B then Inl ShapeError
      else Inr \<lparr>n_rows = n_rows A, n_cols = n_cols B,
                cell = (\<lambda>i j. \<Sum>k < n_cols A. cell A i k * cell B k j)\<rparr>)"

text \<open>
  A scalar times an array: inside a cvxpy expression the product is exact, on a numpy
  array of floats it is rounded.
\<close>

definition scaled :: "real \<Rightarrow> array2 \<Rightarrow> array2" where
  "scaled c A = A\<lparr>cell := (\<lambda>i j. c * cell A i j)\<rparr>"

definition np_scaled :: "(real \<Rightarrow> real) \<Rightarrow> real \<Rightarrow> array2 \<Rightarrow> array2" where
  "np_scaled rnd c A = A\<lparr>cell := (\<lambda>i j. rnd (c * cell A i j))\<rparr>"

text \<open>
  Broadcasting of one dimension: equal sizes, or one of them 1, which is stretched;
  otherwise the shapes do not fit.
\<close>

definition broadcast_dim :: "nat \<Rightarrow> nat \<Rightarrow> nat option" where
  "broadcast_dim a b =
     (if a = b then Some a else if a = 1 then Some b else if b = 1 then Some a else None)"

definition stretched :: "array2 \<Rightarrow> nat \<Rightarrow> nat \<Rightarrow> real" where
  "stretched A i j = cell A (if n_rows A = 1 then 0 else i) (if n_cols A = 1 then 0 else j)"

text \<open>
  The constraint \<open>lhs <= rhs\<close> of two arrays, as the set of values that satisfy it: the
  component-wise comparison of the broadcast arrays.
\<close>

definition le_constraint :: "array2 \<Rightarrow> array2 \<Rightarrow> error + bool" where
  "le_constraint lhs rhs =
     (case (broadcast_dim (n_rows lhs) (n_rows rhs), broadcast_dim (n_cols lhs) (n_cols rhs)) of
        (Some r, Some c) \<Rightarrow>
          Inr (list_all (\<lambda>i. list_all (\<lambda>j. stretched lhs i j \<le> stretched rhs i j) [0..<c])
                        [0..<r])
      | _ \<Rightarrow> Inl ShapeError)"

subsection \<open>The constraint\<close>

text \<open>
  \<open>AsymptoticProblem._moment_constraint\<close> builds one cvxpy constraint on the variable.
  The model is the meaning of that constraint: whether a value of the variable (a column
  with one weight per environment) satisfies it, or the shape error that building it
  raises.  \<open>beliefs\<close> (one row per environment), \<open>moment_matrix\<close> (one row per moment) and
  \<open>tolerance\<close> are fields of \<open>ConvexProblem\<close> (module \<open>analytics\<close>, not among the sources)
  and are parameters here.  \<open>1e2 * self._tolerance\<close> is a product of floats.
\<close>

definition moment_constraint ::
    "(real \<Rightarrow> real) \<Rightarrow> array2 \<Rightarrow> array2 \<Rightarrow> array2 \<Rightarrow> array2 \<Rightarrow> error + bool" where
  "moment_constraint rnd moment_matrix beliefs tolerance variable =
     (case matmul (transposed beliefs) variable of
        Inl e \<Rightarrow> Inl e
      | Inr rationalizing_demands \<Rightarrow>
          (case matmul moment_matrix rationalizing_demands of
             Inl e \<Rightarrow> Inl e
           | Inr product \<Rightarrow>
               (let moment = scaled 100 product
                in le_constraint moment (np_scaled rnd 100 tolerance))))"

text \<open>
  Entry \<open>(i, j)\<close> of \<open>moment_matrix \<cdot> (beliefs\<^sup>T \<cdot> variable)\<close>: row \<open>i\<close> of the moment matrix
  applied to the w-weighted environment moments, the sums over the environments of weight
  times belief.
\<close>

definition weighted_moment :: "array2 \<Rightarrow> array2 \<Rightarrow> array2 \<Rightarrow> nat \<Rightarrow> nat \<Rightarrow> real" where
  "weighted_moment moment_matrix beliefs variable i j =
     (\<Sum>k < n_cols moment_matrix.
        cell moment_matrix i k * (\<Sum>e < n_rows beliefs. cell beliefs e k * cell variable e j))"

text \<open>
  The constraint in the words of the spec, for comparison: the two-sided bound
  \<open>|moment_matrix \<cdot> (w-weighted environment moments) - empirical moments| \<le> tolerance\<close>,
  component-wise, on columns with one entry per moment.
\<close>

definition spec_two_sided_constraint ::
    "array2 \<Rightarrow> array2 \<Rightarrow> array2 \<Rightarrow> array2 \<Rightarrow> array2 \<Rightarrow> bool" where
  "spec_two_sided_constraint moment_matrix beliefs empirical tolerance variable =
     list_all
       (\<lambda>i. \<bar>weighted_moment moment_matrix beliefs variable i 0 - cell empirical i 0\<bar>
            \<le> cell tolerance i 0)
       [0..<n_rows moment_matrix]"

section \<open>The parallel grid solve (mb\_api/solvers.py)\<close>

text \<open>
  Modelled from the spec: \<open>ParallelSolver\<close> of the module \<open>solvers\<close>, which
  asymptotics.py imports and only subclasses; it is not among the sources.  The spec:
  the solver for one point returns an objective value and a tie flag, or fails with an
  infeasibility report; the grid solve "invokes MinCollusionSolver once per point", is
  an "embarrassingly parallel map, order-preserving -- the n-th output corresponds to
  the n-th input regardless of completion order", and "a per-point failure
  (infeasibility) is captured and represented as a missing/flagged value in the output
  array rather than aborting the whole grid".

  The solver for one point is the parameter \<open>solve\<close>.  \<open>completion\<close> lists the indices of
  the points in the order in which their solves finish; each finished solve stores its
  entry at the index of its point.
\<close>

datatype solve_failure = Infeasible

record grid_entry =
  objective_value :: "real option"  \<comment> \<open>\<open>None\<close>: NaN, no value\<close>
  tie_flag :: bool
  feasible :: bool

definition flagged :: grid_entry where
  "flagged = \<lparr>objective_value = None, tie_flag = False, feasible = False\<rparr>"

definition capture :: "solve_failure + (real \<times> bool) \<Rightarrow> grid_entry" where
  "capture r =
     (case r of
        Inl Infeasible \<Rightarrow> flagged
      | Inr (v, tie) \<Rightarrow> \<lparr>objective_value = Some v, tie_flag = tie, feasible = True\<rparr>)"

definition solve_grid ::
    "('p \<Rightarrow> solve_failure + (real \<times> bool)) \<Rightarrow> nat list \<Rightarrow> 'p list \<Rightarrow> grid_entry list" where
  "solve_grid solve completion parameter_points =
     fold (\<lambda>i out. out[i := capture (solve (parameter_points ! i))])
          completion
          (replicate (length parameter_points) flagged)"

section \<open>Standard deviation and confidence threshold (mb\_api/asymptotics.py)\<close>

















section \<open>Properties of the deviation profile and of the refined metric\<close>

lemma count_ordered_deviations:
  assumes "\<not> P 0"
  shows "length (filter P (ordered_deviations devs)) = card {d \<in> set devs. P d}"
proof -
  have "length (filter P (ordered_deviations devs)) =
          card ({x. P x} \<inter> set (ordered_deviations devs))"
    unfolding ordered_deviations_def by (rule distinct_length_filter) simp
  also have "{x. P x} \<inter> set (ordered_deviations devs) = {d \<in> set devs. P d}"
    using assms by (auto simp: ordered_deviations_def)
  finally show ?thesis .
qed

lemma check_passes_iff:
  "check_up_down_deviations devs = Inr () \<longleftrightarrow>
     card {d \<in> set devs. d < 0} = 1 \<and> card {d \<in> set devs. 0 < d} = 1"
  by (simp add: check_up_down_deviations_def Let_def count_ordered_deviations)

lemma check_two_outcomes:
  "check_up_down_deviations devs = Inr () \<or>
   check_up_down_deviations devs = Inl DeviationProfileError"
  by (simp add: check_up_down_deviations_def Let_def)

text \<open>With one value below zero and one above, the ordered deviation set has three entries.\<close>

lemma ordered_deviations_three:
  assumes "{d \<in> set devs. d < 0} = {a}" and "{d \<in> set devs. 0 < d} = {b}"
  shows "ordered_deviations devs = [a, 0, b]"
proof -
  have a: "a < 0" and b: "0 < b" using assms by auto
  have "set devs \<subseteq> {a, 0, b}"
  proof
    fix x assume "x \<in> set devs"
    then have "x < 0 \<Longrightarrow> x \<in> {a}" "0 < x \<Longrightarrow> x \<in> {b}" using assms by auto
    then show "x \<in> {a, 0, b}" by (cases "x < 0"; cases "0 < x") auto
  qed
  moreover have "a \<in> set devs" "b \<in> set devs" using assms by auto
  ultimately have s: "set (ordered_deviations devs) = set [a, 0, b]"
    by (auto simp: ordered_deviations_def)
  show ?thesis
    by (rule sorted_distinct_set_unique[OF _ _ _ _ s])
       (use a b in \<open>auto simp: ordered_deviations_def\<close>)
qed

lemma init_one_down_one_up:
  assumes "{d \<in> set devs. d < 0} = {a}" and "{d \<in> set devs. 0 < d} = {b}"
  shows "RefinedMultistageIsNonCompetitive_init devs =
           Inr \<lparr>deviations_of = [a, 0, b], rho_down = a, rho_up = b\<rparr>"
proof -
  have "check_up_down_deviations devs = Inr ()"
    using assms by (simp add: check_passes_iff)
  then show ?thesis
    by (simp add: RefinedMultistageIsNonCompetitive_init_def
        DimensionlessCollusionMetrics_init_def ordered_deviations_three[OF assms])
qed

text \<open>
  C2.  Constructing the refined metric raises the configuration error of the check
  exactly when the deviation profile does not hold exactly one strictly negative and
  exactly one strictly positive value, and succeeds exactly when it holds one of each.
  The profile counts as the ordered deviation set does, by distinct values.  The
  constructor is a function of the profile alone: nothing is sampled or solved.
\<close>

theorem refined_metric_construction:
  "(RefinedMultistageIsNonCompetitive_init devs = Inl DeviationProfileError \<longleftrightarrow>
      \<not> (card {d \<in> set devs. d < 0} = 1 \<and> card {d \<in> set devs. 0 < d} = 1)) \<and>
   ((\<exists>m. RefinedMultistageIsNonCompetitive_init devs = Inr m) \<longleftrightarrow>
      card {d \<in> set devs. d < 0} = 1 \<and> card {d \<in> set devs. 0 < d} = 1)"
proof (cases "card {d \<in> set devs. d < 0} = 1 \<and> card {d \<in> set devs. 0 < d} = 1")
  case True
  then obtain a b where "{d \<in> set devs. d < 0} = {a}" "{d \<in> set devs. 0 < d} = {b}"
    by (auto simp: card_1_singleton_iff)
  from init_one_down_one_up[OF this] True show ?thesis by simp
next
  case False
  then have "check_up_down_deviations devs \<noteq> Inr ()"
    by (simp add: check_passes_iff)
  then have "check_up_down_deviations devs = Inl DeviationProfileError"
    using check_two_outcomes[of devs] by simp
  then show ?thesis
    using False by (simp add: RefinedMultistageIsNonCompetitive_init_def)
qed

theorem refined_metric_construction_witness:
  "RefinedMultistageIsNonCompetitive_init [0.02, 0.05] = Inl DeviationProfileError \<and>
   (\<exists>m. RefinedMultistageIsNonCompetitive_init [-0.02, 0.02] = Inr m)"
proof -
  have 1: "{d \<in> set [0.02, 0.05 :: real]. d < 0} = {}" by auto
  have 2: "{d \<in> set [-0.02, 0.02 :: real]. d < 0} = {-0.02}" by auto
  have 3: "{d \<in> set [-0.02, 0.02 :: real]. 0 < d} = {0.02}" by auto
  show ?thesis
    using refined_metric_construction[of "[0.02, 0.05]"]
          refined_metric_construction[of "[-0.02, 0.02]"]
    unfolding 1 2 3 by simp
qed

text \<open>
  C6.  For a deviation profile with the one downward deviation \<open>dev_down\<close> and the one
  upward deviation \<open>dev_up\<close>, the refined metric is constructed with these two as
  \<open>rho_down\<close> and \<open>rho_up\<close>, and its payoff vector on the environment
  (win_down, marg_cont, marg_info, reserve, win0, win_up, cost) is
  [win_down (1 + dev_down - cost) + marg_cont (reserve - cost) + 0.5 marg_info (reserve - cost),
   win0 (1 - cost), win_up (1 + dev_up - cost)].
\<close>

theorem refined_payoffs:
  assumes "{d \<in> set devs. d < 0} = {dev_down}" and "{d \<in> set devs. 0 < d} = {dev_up}"
  shows "\<exists>m. RefinedMultistageIsNonCompetitive_init devs = Inr m \<and>
             rho_down m = dev_down \<and> rho_up m = dev_up \<and>
             get_payoffs m [win_down, marg_cont, marg_info, reserve, win0, win_up, cost] =
               Inr [win_down * (1 + dev_down - cost) + marg_cont * (reserve - cost)
                      + 0.5 * marg_info * (reserve - cost),
                    win0 * (1 - cost),
                    win_up * (1 + dev_up - cost)]"
  by (simp add: init_one_down_one_up[OF assms] get_payoffs_def Let_def
      coeff_marginal_cont_def coeff_marginal_info_def)

theorem refined_payoffs_witness:
  "\<exists>m. RefinedMultistageIsNonCompetitive_init [-0.02, 0.02] = Inr m \<and>
       rho_down m = -0.02 \<and> rho_up m = 0.02 \<and>
       get_payoffs m [0.5, 0.1, 0.2, 0.9, 0.4, 0.3, 0.8] = Inr [0.11, 0.08, 0.066]"
proof -
  have 2: "{d \<in> set [-0.02, 0.02 :: real]. d < 0} = {-0.02}" by auto
  have 3: "{d \<in> set [-0.02, 0.02 :: real]. 0 < d} = {0.02}" by auto
  show ?thesis
    using refined_payoffs[OF 2 3, of "0.5" "0.1" "0.2" "0.9" "0.4" "0.3" "0.8"] by simp
qed

section \<open>Properties of the multistage metric\<close>


lemma one_down_one_up_metric:
  assumes down: "{d \<in> set deviations. d < 0} = {dev_down}"
      and up: "{d \<in> set deviations. 0 < d} = {dev_up}"
  shows "ms_deviations (MultistageIsNonCompetitive_init deviations) = [dev_down, 0, dev_up]"
    and "equilibrium_index (MultistageIsNonCompetitive_init deviations) = 1"
    and "\<not> all_upward_dev (MultistageIsNonCompetitive_init deviations)"
proof -
  have neg: "dev_down < 0" using down by auto
  show devs: "ms_deviations (MultistageIsNonCompetitive_init deviations) = [dev_down, 0, dev_up]"
    by (simp add: MultistageIsNonCompetitive_init_def DimensionlessCollusionMetrics_init_def
        ordered_deviations_three[OF down up])
  show "equilibrium_index (MultistageIsNonCompetitive_init deviations) = 1"
    using neg by (simp add: equilibrium_index_def devs)
  show "\<not> all_upward_dev (MultistageIsNonCompetitive_init deviations)"
    using neg by (simp add: all_upward_dev_def devs)
qed

lemma np_max_gt:
  assumes "xs \<noteq> []"
  shows "\<exists>b. np_max xs = Inr b \<and> (b > c \<longleftrightarrow> (\<exists>x \<in> set xs. x > c))"
proof -
  obtain x rest where xs: "xs = x # rest" using assms by (cases xs) auto
  have "fold max rest x = Max (set xs)" unfolding xs by (rule Max.set_eq_fold[symmetric])
  moreover have "Max (set xs) > c \<longleftrightarrow> (\<exists>x \<in> set xs. x > c)"
    using assms by (simp add: Max_gr_iff)
  ultimately show ?thesis by (simp add: np_max_def xs)
qed

lemma equilibrium_in_range:
  "length (takeWhile (\<lambda>d. d \<noteq> 0) (ordered_deviations ds)) < length (ordered_deviations ds)"
proof -
  have "0 \<in> set (ordered_deviations ds)" by (simp add: ordered_deviations_def)
  then have "takeWhile (\<lambda>d. d \<noteq> 0) (ordered_deviations ds) \<noteq> ordered_deviations ds"
    by (auto simp: takeWhile_eq_all_conv)
  then have "length (takeWhile (\<lambda>d. d \<noteq> 0) (ordered_deviations ds)) \<noteq> length (ordered_deviations ds)"
    by (metis takeWhile_eq_take take_all_iff order_refl)
  moreover have "length (takeWhile (\<lambda>d. d \<noteq> 0) (ordered_deviations ds)) \<le> length (ordered_deviations ds)"
    by (rule length_takeWhile_le)
  ultimately show ?thesis by linarith
qed

lemma sorted_takeWhile_empty:
  assumes "sorted xs" "(0::real) \<in> set xs"
  shows "takeWhile (\<lambda>d. d \<noteq> 0) xs = [] \<longleftrightarrow> (\<forall>d \<in> set xs. 0 \<le> d)"
proof (cases xs)
  case Nil
  then show ?thesis using assms by simp
next
  case (Cons x rest)
  show ?thesis
  proof
    assume "takeWhile (\<lambda>d. d \<noteq> 0) xs = []"
    then have "x = 0" by (simp add: Cons split: if_splits)
    then show "\<forall>d \<in> set xs. 0 \<le> d" using assms(1) by (auto simp: Cons)
  next
    assume a: "\<forall>d \<in> set xs. 0 \<le> d"
    have "x \<le> 0" using assms by (auto simp: Cons)
    moreover have "0 \<le> x" using a by (simp add: Cons)
    ultimately show "takeWhile (\<lambda>d. d \<noteq> 0) xs = []" by (simp add: Cons)
  qed
qed

text \<open>
  The metric on any deviation profile, for an environment on which the inherited payoff
  function gives one payoff per entry of the ordered deviation set: true if and only if
  some downward deviation's payoff plus its penalty, rounded, or some upward deviation's
  payoff, strictly exceeds the payoff at the equilibrium index.
\<close>

lemma multistage_call_general:
  fixes payoffs :: "real list"
  defines "m \<equiv> MultistageIsNonCompetitive_init"
  assumes pay: "DimensionlessCollusionMetrics_get_payoffs rnd (m ds) env = Inr payoffs"
      and len: "length payoffs = length (ordered_deviations ds)"
      and env: "equilibrium_index (m ds) \<le> length env"
  shows "MultistageIsNonCompetitive_call rnd (m ds) env =
           Inr ((\<exists>i < equilibrium_index (m ds).
                    rnd (payoffs ! i + rnd (rnd (max_win_prob - env ! i) * ordered_deviations ds ! i))
                      > payoffs ! equilibrium_index (m ds)) \<or>
                (\<exists>j. equilibrium_index (m ds) < j \<and> j < length payoffs \<and>
                    payoffs ! j > payoffs ! equilibrium_index (m ds)))"
proof -
  let ?m = "m ds"
  define k where "k = equilibrium_index ?m"
  define devs where "devs = ordered_deviations ds"
  have md: "ms_deviations ?m = devs"
    by (simp add: m_def MultistageIsNonCompetitive_init_def
        DimensionlessCollusionMetrics_init_def devs_def)
  have k: "k = length (takeWhile (\<lambda>d. d \<noteq> 0) devs)"
    by (simp add: k_def equilibrium_index_def md)
  have kn: "k < length payoffs"
    using equilibrium_in_range[of ds] by (simp add: k len devs_def)
  have kd: "k < length devs" using kn len by (simp add: devs_def)
  have ke: "k \<le> length env" using env by (simp add: k_def)
  have sorted: "sorted devs" and zero: "0 \<in> set devs"
    by (simp_all add: devs_def ordered_deviations_def)
  have allup: "all_upward_dev ?m \<longleftrightarrow> k = 0"
    using sorted_takeWhile_empty[OF sorted zero]
    by (simp add: all_upward_dev_def md k list_all_iff)
  \<comment> \<open>the upward check\<close>
  have dne: "drop k payoffs \<noteq> []" using kn by simp
  obtain bu where bu: "np_max (drop k payoffs) = Inr bu"
    and bu_iff: "bu > payoffs ! k \<longleftrightarrow> (\<exists>x \<in> set (drop k payoffs). x > payoffs ! k)"
    using np_max_gt[OF dne, of "payoffs ! k"] by blast
  have "(\<exists>x \<in> set (drop k payoffs). x > payoffs ! k) \<longleftrightarrow>
        (\<exists>j. k < j \<and> j < length payoffs \<and> payoffs ! j > payoffs ! k)"
  proof
    assume "\<exists>x \<in> set (drop k payoffs). x > payoffs ! k"
    then obtain i where i: "i < length (drop k payoffs)" "drop k payoffs ! i > payoffs ! k"
      by (auto simp: in_set_conv_nth)
    then have gt: "payoffs ! (k + i) > payoffs ! k" using kn by simp
    then have "i \<noteq> 0" by (cases i) auto
    then show "\<exists>j. k < j \<and> j < length payoffs \<and> payoffs ! j > payoffs ! k"
      using i(1) gt by (intro exI[of _ "k + i"]) auto
  next
    assume "\<exists>j. k < j \<and> j < length payoffs \<and> payoffs ! j > payoffs ! k"
    then obtain j where j: "k < j" "j < length payoffs" "payoffs ! j > payoffs ! k" by blast
    then have e: "drop k payoffs ! (j - k) = payoffs ! j" and l: "j - k < length (drop k payoffs)"
      by simp_all
    have "drop k payoffs ! (j - k) \<in> set (drop k payoffs)"
      by (rule nth_mem[OF l])
    then have "payoffs ! j \<in> set (drop k payoffs)" by (simp only: e)
    then show "\<exists>x \<in> set (drop k payoffs). x > payoffs ! k"
      using j(3) by blast
  qed
  with bu_iff have bu_iff': "bu > payoffs ! k \<longleftrightarrow>
        (\<exists>j. k < j \<and> j < length payoffs \<and> payoffs ! j > payoffs ! k)" by simp
  have hd: "np_index (drop k payoffs) 0 = Inr (payoffs ! k)"
    using kn by (simp add: np_index_def)
  have upw: "upward_non_ic rnd ?m env =
               Inr (\<exists>j. k < j \<and> j < length payoffs \<and> payoffs ! j > payoffs ! k)"
    by (simp add: upward_non_ic_def pay Let_def k_def[symmetric] bu hd bu_iff')
  \<comment> \<open>the downward check\<close>
  have dn: "downward_non_ic rnd ?m env =
              Inr (\<exists>i < k. rnd (payoffs ! i + rnd (rnd (max_win_prob - env ! i) * devs ! i)) > payoffs ! k)"
  proof (cases "k = 0")
    case True
    then show ?thesis by (simp add: downward_non_ic_def allup)
  next
    case False
    define penalty where
      "penalty = map2 (\<lambda>a d. rnd (a * d)) (map (\<lambda>b. rnd (max_win_prob - b)) (take k env)) (take k devs)"
    define adjusted where "adjusted = map2 (\<lambda>p q. rnd (p + q)) (take k payoffs) penalty"
    have lp: "length penalty = k" using ke kd by (simp add: penalty_def)
    have la: "length adjusted = k" using kn lp by (simp add: adjusted_def)
    have pen: "get_penalty rnd ?m env = Inr penalty"
      using ke kd
      by (simp add: get_penalty_def Let_def k_def[symmetric] md np_elementwise_def penalty_def)
    have adj: "np_elementwise (\<lambda>p q. rnd (p + q)) (take k payoffs) penalty = Inr adjusted"
      using kn lp by (simp add: np_elementwise_def adjusted_def)
    have nth: "adjusted ! i = rnd (payoffs ! i + rnd (rnd (max_win_prob - env ! i) * devs ! i))" if "i < k" for i
      using that ke kd kn lp by (simp add: adjusted_def penalty_def)
    have ane: "adjusted \<noteq> []" using la False by auto
    obtain bd where bd: "np_max adjusted = Inr bd"
      and bd_iff: "bd > payoffs ! k \<longleftrightarrow> (\<exists>x \<in> set adjusted. x > payoffs ! k)"
      using np_max_gt[OF ane, of "payoffs ! k"] by blast
    have "(\<exists>x \<in> set adjusted. x > payoffs ! k) \<longleftrightarrow>
          (\<exists>i < k. rnd (payoffs ! i + rnd (rnd (max_win_prob - env ! i) * devs ! i)) > payoffs ! k)"
    proof
      assume "\<exists>x \<in> set adjusted. x > payoffs ! k"
      then obtain i where "i < length adjusted" "adjusted ! i > payoffs ! k"
        by (auto simp: in_set_conv_nth)
      then have "i < k" "rnd (payoffs ! i + rnd (rnd (max_win_prob - env ! i) * devs ! i)) > payoffs ! k"
        using nth[of i] la by simp_all
      then show "\<exists>i < k. rnd (payoffs ! i + rnd (rnd (max_win_prob - env ! i) * devs ! i)) > payoffs ! k"
        by blast
    next
      assume "\<exists>i < k. rnd (payoffs ! i + rnd (rnd (max_win_prob - env ! i) * devs ! i)) > payoffs ! k"
      then obtain i where i: "i < k" "rnd (payoffs ! i + rnd (rnd (max_win_prob - env ! i) * devs ! i)) > payoffs ! k"
        by blast
      have "adjusted ! i \<in> set adjusted" by (rule nth_mem) (use i la in simp)
      moreover have "adjusted ! i > payoffs ! k" using i nth[of i] by simp
      ultimately show "\<exists>x \<in> set adjusted. x > payoffs ! k" by blast
    qed
    with bd_iff have bd_iff': "bd > payoffs ! k \<longleftrightarrow>
          (\<exists>i < k. rnd (payoffs ! i + rnd (rnd (max_win_prob - env ! i) * devs ! i)) > payoffs ! k)" by simp
    have ix: "np_index payoffs k = Inr (payoffs ! k)" using kn by (simp add: np_index_def)
    show ?thesis
      using False
      by (simp add: downward_non_ic_def allup pay pen k_def[symmetric] adj bd ix bd_iff')
  qed
  show ?thesis
    by (simp add: MultistageIsNonCompetitive_call_def dn upw k_def[symmetric] devs_def[symmetric])
qed

lemma payoffs_four_components:
  assumes down: "{d \<in> set deviations. d < 0} = {dev_down}"
      and up: "{d \<in> set deviations. 0 < d} = {dev_up}"
  shows "DimensionlessCollusionMetrics_get_payoffs rnd (MultistageIsNonCompetitive_init deviations)
             [win_down, win0, win_up, cost]
           = Inr [deviation_payoff rnd win_down dev_down cost,
                  deviation_payoff rnd win0 0 cost,
                  deviation_payoff rnd win_up dev_up cost]"
  by (simp add: DimensionlessCollusionMetrics_get_payoffs_def one_down_one_up_metric(1)[OF down up]
      np_elementwise_def deviation_payoff_def)

text \<open>
  On the environment and deviations of tests.py the modelled payoffs are .09, .08 and
  .066: the largest exceeds the equilibrium payoff, as the test of \<open>IsNonCompetitive\<close>
  expects.
\<close>

lemma payoffs_on_test_environment:
  "DimensionlessCollusionMetrics_get_payoffs decimal6 (MultistageIsNonCompetitive_init [-0.02, 0.02])
     [0.5, 0.4, 0.3, 0.8] = Inr [0.09, 0.08, 0.066]"
proof -
  have 2: "{d \<in> set [-0.02, 0.02 :: real]. d < 0} = {-0.02}" by auto
  have 3: "{d \<in> set [-0.02, 0.02 :: real]. 0 < d} = {0.02}" by auto
  show ?thesis
    using payoffs_four_components[OF 2 3, of decimal6 "0.5" "0.4" "0.3" "0.8"]
    by (simp add: deviation_payoff_def decimal6_def)
qed





section \<open>Properties of the environment generator\<close>

lemma length_rand: "length (fst (rand R n g)) = n"
proof (induction n arbitrary: g)
  case 0
  show ?case by simp
next
  case (Suc n)
  obtain x g' where 1: "next_double R g = (x, g')" by (cases "next_double R g")
  obtain xs g'' where 2: "rand R n g' = (xs, g'')" by (cases "rand R n g'")
  show ?case using Suc[of g'] by (simp add: 1 2)
qed

lemma rand_all:
  assumes "\<And>g. P (fst (next_double R g))"
  shows "\<forall>x \<in> set (fst (rand R n g)). P x"
proof (induction n arbitrary: g)
  case 0
  show ?case by simp
next
  case (Suc n)
  obtain x g' where 1: "next_double R g = (x, g')" by (cases "next_double R g")
  obtain xs g'' where 2: "rand R n g' = (xs, g'')" by (cases "rand R n g'")
  have "P x" using assms[of g] 1 by simp
  moreover have "\<forall>y \<in> set xs. P y" using Suc[of g'] 2 by simp
  ultimately show ?case by (simp add: 1 2)
qed

lemma length_rand2: "length (fst (rand2 R n k g)) = n"
proof (induction n arbitrary: g)
  case 0
  show ?case by simp
next
  case (Suc n)
  obtain row g' where 1: "rand R k g = (row, g')" by (cases "rand R k g")
  obtain rows g'' where 2: "rand2 R n k g' = (rows, g'')" by (cases "rand2 R n k g'")
  show ?case using Suc[of g'] by (simp add: 1 2)
qed

lemma rand2_rows:
  "\<forall>row \<in> set (fst (rand2 R n k g)). length row = k"
proof (induction n arbitrary: g)
  case 0
  show ?case by simp
next
  case (Suc n)
  obtain row g' where 1: "rand R k g = (row, g')" by (cases "rand R k g")
  obtain rows g'' where 2: "rand2 R n k g' = (rows, g'')" by (cases "rand2 R n k g'")
  have "length row = k" using length_rand[of R k g] 1 by simp
  moreover have "\<forall>r \<in> set rows. length r = k" using Suc[of g'] 2 by simp
  ultimately show ?case by (simp add: 1 2)
qed

lemma rand2_all:
  assumes "\<And>g. P (fst (next_double R g))"
  shows "\<forall>row \<in> set (fst (rand2 R n k g)). \<forall>x \<in> set row. P x"
proof (induction n arbitrary: g)
  case 0
  show ?case by simp
next
  case (Suc n)
  obtain row g' where 1: "rand R k g = (row, g')" by (cases "rand R k g")
  obtain rows g'' where 2: "rand2 R n k g' = (rows, g'')" by (cases "rand2 R n k g'")
  have "\<forall>x \<in> set row. P x" using rand_all[of P R k g, OF assms] 1 by simp
  moreover have "\<forall>r \<in> set rows. \<forall>x \<in> set r. P x" using Suc[of g'] 2 by simp
  ultimately show ?case by (simp add: 1 2)
qed

lemma nth_set_column:
  "i < length env \<Longrightarrow> i < length col \<Longrightarrow> set_column j col env ! i = (env ! i)[j := col ! i]"
  by (simp add: set_column_def)

lemma length_set_column:
  "length col = length env \<Longrightarrow> length (set_column j col env) = length env"
  by (simp add: set_column_def)

lemma nth_set_columns:
  "i < length env \<Longrightarrow> i < length block \<Longrightarrow>
   set_columns js block env ! i = fold (\<lambda>(j, v) r. r[j := v]) (zip js (block ! i)) (env ! i)"
  by (simp add: set_columns_def)

lemma length_set_columns:
  "length block = length env \<Longrightarrow> length (set_columns js block env) = length env"
  by (simp add: set_columns_def)

lemma nth_column: "i < length env \<Longrightarrow> column j env ! i = env ! i ! j"
  by (simp add: column_def)

lemma length_column: "length (column j env) = length env"
  by (simp add: column_def)

lemma list3: "length xs = 3 \<Longrightarrow> xs = [xs ! 0, xs ! 1, xs ! 2]"
  by (cases xs; cases "tl xs"; cases "tl (tl xs)") auto

lemma upt7: "[0..<7] = [0, 1, 2, 3, 4, 5, 6]"
  by (simp add: upt_rec)


lemma generate_rows:
  assumes seed: "seed_state R seed = Some g1" and num: "0 \<le> num"
  defines "n \<equiv> nat num"
  defines "wins \<equiv> fst (rand2 R n 3 g1)" and "g2 \<equiv> snd (rand2 R n 3 g1)"
  defines "ur \<equiv> fst (rand R n g2)" and "g3 \<equiv> snd (rand R n g2)"
  defines "uc \<equiv> fst (rand R n g3)" and "g4 \<equiv> snd (rand R n g3)"
  defines "ui \<equiv> fst (rand R n g4)" and "g5 \<equiv> snd (rand R n g4)"
  defines "uco \<equiv> fst (rand R n g5)" and "g6 \<equiv> snd (rand R n g5)"
  shows "generate_raw_environments R mem g0 num seed =
           Inr (map (\<lambda>i. raw_row (wins ! i) (ur ! i) (uc ! i) (ui ! i) (uco ! i)) [0..<n], g6)"
proof -
  have lw: "length wins = n" and lr: "length ur = n" and lc: "length uc = n"
    and li: "length ui = n" and lco: "length uco = n"
    by (simp_all add: wins_def ur_def uc_def ui_def uco_def length_rand length_rand2)
  have w3: "\<And>i. i < n \<Longrightarrow> length (wins ! i) = 3"
    using rand2_rows[of R n 3 g1] lw by (simp add: wins_def)
  define env0 where "env0 = np_empty mem n 7"
  define env1 where "env1 = set_columns [col_win_down, col_win0, col_win_up] (descending_sort wins) env0"
  define env2 where "env2 = set_column col_reserve ur env1"
  define env3 where "env3 = set_column col_marg_cont
                          (map2 (*) uc (map2 (-) (column col_win_down env2) (column col_win0 env2))) env2"
  define env4 where "env4 = set_column col_marg_info
                          (map2 (*) ui (map (\<lambda>w. 1 - w) (column col_win_down env3))) env3"
  define env5 where "env5 = set_column col_cost uco env4"
  have l0: "length env0 = n" by (simp add: env0_def np_empty_def)
  have l1: "length env1 = n" by (simp add: env1_def length_set_columns descending_sort_def lw l0)
  have l2: "length env2 = n" by (simp add: env2_def length_set_column lr l1)
  have l3: "length env3 = n" by (simp add: env3_def length_set_column lc l2 length_column)
  have l4: "length env4 = n" by (simp add: env4_def length_set_column li l3 length_column)
  have l5: "length env5 = n" by (simp add: env5_def length_set_column lco l4)
  have unfold: "generate_raw_environments R mem g0 num seed = Inr (env5, g6)"
    using num
    by (simp add: generate_raw_environments_def seed Let_def split_beta
        env0_def env1_def env2_def env3_def env4_def env5_def n_def
        wins_def g2_def ur_def g3_def uc_def g4_def ui_def g5_def uco_def g6_def)
  have row: "env5 ! i = raw_row (wins ! i) (ur ! i) (uc ! i) (ui ! i) (uco ! i)" if i: "i < n" for i
  proof -
    define s where "s = rev (sort (wins ! i))"
    have s3: "s = [s ! 0, s ! 1, s ! 2]"
      by (rule list3) (simp add: s_def w3[OF i])
    have r0: "env0 ! i = [mem i 0, mem i 1, mem i 2, mem i 3, mem i 4, mem i 5, mem i 6]"
      using i by (simp add: env0_def np_empty_def upt7)
    have ds: "descending_sort wins ! i = s"
      using i lw by (simp add: descending_sort_def s_def)
    have r1: "env1 ! i = [s ! 0, mem i 1, mem i 2, mem i 3, s ! 1, s ! 2, mem i 6]"
    proof -
      have "env1 ! i = fold (\<lambda>(j, v) r. r[j := v])
                         (zip [col_win_down, col_win0, col_win_up] s) (env0 ! i)"
        using i l0 lw by (simp add: env1_def nth_set_columns descending_sort_def s_def)
      also have "\<dots> = fold (\<lambda>(j, v) r. r[j := v])
                         (zip [col_win_down, col_win0, col_win_up] [s ! 0, s ! 1, s ! 2]) (env0 ! i)"
        using s3 by simp
      finally show ?thesis
        by (simp add: r0 col_win_down_def col_win0_def col_win_up_def)
    qed
    have r2: "env2 ! i = [s ! 0, mem i 1, mem i 2, ur ! i, s ! 1, s ! 2, mem i 6]"
      using i by (simp add: env2_def nth_set_column l1 lr r1 col_reserve_def)
    have r3: "env3 ! i = [s ! 0, uc ! i * (s ! 0 - s ! 1), mem i 2, ur ! i, s ! 1, s ! 2, mem i 6]"
      using i by (simp add: env3_def nth_set_column l2 lc length_column nth_column r2
          col_marg_cont_def col_win_down_def col_win0_def)
    have r4: "env4 ! i = [s ! 0, uc ! i * (s ! 0 - s ! 1), ui ! i * (1 - s ! 0), ur ! i, s ! 1, s ! 2, mem i 6]"
      using i by (simp add: env4_def nth_set_column l3 li length_column nth_column r3
          col_marg_info_def col_win_down_def)
    have r5: "env5 ! i = [s ! 0, uc ! i * (s ! 0 - s ! 1), ui ! i * (1 - s ! 0), ur ! i, s ! 1, s ! 2, uco ! i]"
      using i by (simp add: env5_def nth_set_column l4 lco r4 col_cost_def)
    show ?thesis by (simp add: r5 raw_row_def s_def Let_def)
  qed
  have "env5 = map (\<lambda>i. raw_row (wins ! i) (ur ! i) (uc ! i) (ui ! i) (uco ! i)) [0..<n]"
    by (rule nth_equalityI) (simp_all add: l5 row)
  with unfold show ?thesis by simp
qed

lemma descending_three:
  assumes "length w = 3"
  shows "rev (sort w) ! 0 \<ge> rev (sort w) ! 1 \<and> rev (sort w) ! 1 \<ge> rev (sort w) ! 2"
proof -
  have a: "sort w ! 1 \<le> sort w ! 2"
    by (rule sorted_nth_mono) (simp_all add: assms)
  have b: "sort w ! 0 \<le> sort w ! 1"
    by (rule sorted_nth_mono) (simp_all add: assms)
  have r: "rev (sort w) ! 0 = sort w ! 2" "rev (sort w) ! 1 = sort w ! 1"
          "rev (sort w) ! 2 = sort w ! 0"
    by (simp_all add: rev_nth assms)
  show ?thesis using a b by (simp only: r)
qed

lemma descending_in_set:
  assumes "length w = 3" "i < 3"
  shows "rev (sort w) ! i \<in> set w"
proof -
  have "rev (sort w) ! i \<in> set (rev (sort w))"
    by (rule nth_mem) (use assms in simp)
  then show ?thesis by simp
qed

lemma raw_row_ordered:
  assumes "length w = 3"
  shows "raw_row w ur uc ui uco ! col_win_down \<ge> raw_row w ur uc ui uco ! col_win0 \<and>
         raw_row w ur uc ui uco ! col_win0 \<ge> raw_row w ur uc ui uco ! col_win_up"
  using descending_three[OF assms]
  by (simp add: raw_row_def Let_def col_win_down_def col_win0_def col_win_up_def)

lemma raw_row_ranges:
  assumes w: "length w = 3" "\<forall>x \<in> set w. 0 \<le> x \<and> x < 1"
      and uc: "0 \<le> uc \<and> uc < 1" and ui: "0 \<le> ui \<and> ui < 1"
  shows "0 \<le> raw_row w ur uc ui uco ! col_marg_cont \<and>
         raw_row w ur uc ui uco ! col_marg_cont \<le>
           raw_row w ur uc ui uco ! col_win_down - raw_row w ur uc ui uco ! col_win0 \<and>
         0 \<le> raw_row w ur uc ui uco ! col_marg_info \<and>
         raw_row w ur uc ui uco ! col_marg_info \<le> 1 - raw_row w ur uc ui uco ! col_win_down"
proof -
  define s where "s = rev (sort w)"
  have gap: "0 \<le> s ! 0 - s ! 1" using descending_three[OF w(1)] by (simp add: s_def)
  have "s ! 0 \<in> set w" using descending_in_set[OF w(1), of 0] by (simp add: s_def)
  then have top: "0 \<le> 1 - s ! 0" using w(2) by auto
  have a: "0 \<le> uc * (s ! 0 - s ! 1)" using uc gap by simp
  have b: "uc * (s ! 0 - s ! 1) \<le> s ! 0 - s ! 1"
    using mult_right_mono[of uc 1 "s ! 0 - s ! 1"] uc gap by simp
  have c: "0 \<le> ui * (1 - s ! 0)" using ui top by simp
  have d: "ui * (1 - s ! 0) \<le> 1 - s ! 0"
    using mult_right_mono[of ui 1 "1 - s ! 0"] ui top by simp
  show ?thesis
    using a b c d
    by (simp add: raw_row_def Let_def s_def col_marg_cont_def col_marg_info_def
        col_win_down_def col_win0_def)
qed

text \<open>
  What a call returns once the seed is accepted and the size is not negative: the rows,
  each assembled from the draws of its sample, and the range of the draws when the
  generator draws from the unit interval.
\<close>

lemma generate_result:
  assumes seed: "seed_state R seed = Some g1" and num: "0 \<le> num"
  shows "\<exists>wins ur uc ui uco g'.
           generate_raw_environments R mem g0 num seed =
             Inr (map (\<lambda>i. raw_row (wins ! i) (ur ! i) (uc ! i) (ui ! i) (uco ! i)) [0..<nat num], g') \<and>
           length wins = nat num \<and>
           (\<forall>w \<in> set wins. length w = 3) \<and>
           ((\<forall>g. 0 \<le> fst (next_double R g) \<and> fst (next_double R g) < 1) \<longrightarrow>
              (\<forall>w \<in> set wins. \<forall>x \<in> set w. 0 \<le> x \<and> x < 1) \<and>
              (\<forall>i < nat num. 0 \<le> uc ! i \<and> uc ! i < 1 \<and> 0 \<le> ui ! i \<and> ui ! i < 1))"
proof -
  define n where "n = nat num"
  define wins where "wins = fst (rand2 R n 3 g1)"
  define g2 where "g2 = snd (rand2 R n 3 g1)"
  define ur where "ur = fst (rand R n g2)"
  define g3 where "g3 = snd (rand R n g2)"
  define uc where "uc = fst (rand R n g3)"
  define g4 where "g4 = snd (rand R n g3)"
  define ui where "ui = fst (rand R n g4)"
  define g5 where "g5 = snd (rand R n g4)"
  define uco where "uco = fst (rand R n g5)"
  define g6 where "g6 = snd (rand R n g5)"
  have 1: "generate_raw_environments R mem g0 num seed =
       Inr (map (\<lambda>i. raw_row (wins ! i) (ur ! i) (uc ! i) (ui ! i) (uco ! i)) [0..<nat num], g6)"
    using generate_rows[OF seed num, of mem g0]
    by (simp add: n_def wins_def g2_def ur_def g3_def uc_def g4_def ui_def g5_def uco_def g6_def)
  have 2: "length wins = nat num" by (simp add: wins_def length_rand2 n_def)
  have 3: "\<forall>w \<in> set wins. length w = 3" by (simp add: wins_def rand2_rows)
  have 4: "(\<forall>w \<in> set wins. \<forall>x \<in> set w. 0 \<le> x \<and> x < 1) \<and>
           (\<forall>i < nat num. 0 \<le> uc ! i \<and> uc ! i < 1 \<and> 0 \<le> ui ! i \<and> ui ! i < 1)"
    if unif: "\<forall>g. 0 \<le> fst (next_double R g) \<and> fst (next_double R g) < 1"
  proof -
    have P: "0 \<le> fst (next_double R g) \<and> fst (next_double R g) < 1" for g
      using unif by simp
    have a: "\<forall>w \<in> set wins. \<forall>x \<in> set w. 0 \<le> x \<and> x < 1"
      unfolding wins_def by (rule rand2_all) (rule P)
    have b: "\<forall>x \<in> set (fst (rand R n g)). 0 \<le> x \<and> x < 1" for g
      by (rule rand_all) (rule P)
    have "0 \<le> uc ! i \<and> uc ! i < 1 \<and> 0 \<le> ui ! i \<and> ui ! i < 1" if "i < nat num" for i
      using that b[of g3] b[of g4]
      by (simp add: uc_def ui_def n_def length_rand)
    with a show ?thesis by blast
  qed
  from 1 2 3 4 show ?thesis by blast
qed

text \<open>
  C4.  For every population size N \<ge> 1 and every seed, the generator either rejects the
  seed or returns N environments, and every environment returned satisfies
  win_down \<ge> win0 \<ge> win_up.
\<close>

theorem ordering_invariant:
  assumes "1 \<le> num"
  shows "(seed_state R seed = None \<and> generate_raw_environments R mem g0 num seed = Inl SeedError) \<or>
         (\<exists>env g'. generate_raw_environments R mem g0 num seed = Inr (env, g') \<and>
            length env = nat num \<and>
            (\<forall>row \<in> set env. row ! col_win_down \<ge> row ! col_win0 \<and>
                               row ! col_win0 \<ge> row ! col_win_up))"
proof (cases "seed_state R seed")
  case None
  then show ?thesis by (simp add: generate_raw_environments_def)
next
  case (Some g1)
  from assms have "0 \<le> num" by simp
  from generate_result[OF Some this, of mem g0]
  obtain wins ur uc ui uco g' where
    gen: "generate_raw_environments R mem g0 num seed =
       Inr (map (\<lambda>i. raw_row (wins ! i) (ur ! i) (uc ! i) (ui ! i) (uco ! i)) [0..<nat num], g')"
    and lw: "length wins = nat num" and w3: "\<forall>w \<in> set wins. length w = 3"
    by blast
  have "raw_row (wins ! i) (ur ! i) (uc ! i) (ui ! i) (uco ! i) ! col_win_down
          \<ge> raw_row (wins ! i) (ur ! i) (uc ! i) (ui ! i) (uco ! i) ! col_win0 \<and>
        raw_row (wins ! i) (ur ! i) (uc ! i) (ui ! i) (uco ! i) ! col_win0
          \<ge> raw_row (wins ! i) (ur ! i) (uc ! i) (ui ! i) (uco ! i) ! col_win_up"
    if "i < nat num" for i
    by (rule raw_row_ordered) (use that lw w3 in auto)
  then show ?thesis by (auto simp: gen)
qed

theorem ordering_invariant_witness:
  "\<exists>env g'. generate_raw_environments counter_random zero_memory 7 2 0 = Inr (env, g') \<and>
      length env = 2 \<and>
      (\<forall>row \<in> set env. row ! col_win_down \<ge> row ! col_win0 \<and> row ! col_win0 \<ge> row ! col_win_up)"
  using ordering_invariant[of 2 counter_random 0 zero_memory 7]
  by (simp add: counter_random_def)

text \<open>
  C5.  Two calls with the same population size and seed return the same result: the same
  rows (or the same error) and the same final state of the global generator, whatever
  the state of the global generator and the content of the uninitialised array were when
  each call started.
\<close>

theorem generator_deterministic:
  "generate_raw_environments R mem1 g1 num seed = generate_raw_environments R mem2 g2 num seed"
proof (cases "seed_state R seed")
  case None
  then show ?thesis by (simp add: generate_raw_environments_def)
next
  case (Some g)
  show ?thesis
  proof (cases "num < 0")
    case True
    then show ?thesis by (simp add: generate_raw_environments_def Some)
  next
    case False
    then have "0 \<le> num" by simp
    from generate_rows[OF Some this, of mem1 g1] generate_rows[OF Some this, of mem2 g2]
    show ?thesis by simp
  qed
qed

theorem generator_deterministic_witness:
  "generate_raw_environments counter_random zero_memory 7 2 5 =
   generate_raw_environments counter_random (\<lambda>i j. real (i + j)) 99 2 5"
  using generator_deterministic[of counter_random zero_memory 7 2 5 "\<lambda>i j. real (i + j)" 99]
  by simp

text \<open>
  C8.  For every population size N \<ge> 1 and every seed, with a generator that draws from
  the unit interval, the generator either rejects the seed or returns N environments,
  and every environment returned satisfies 0 \<le> marg_cont \<le> win_down - win0 and
  0 \<le> marg_info \<le> 1 - win_down.
\<close>

theorem dependent_fields_in_range:
  assumes "1 \<le> num"
      and unif: "\<forall>g. 0 \<le> fst (next_double R g) \<and> fst (next_double R g) < 1"
  shows "(seed_state R seed = None \<and> generate_raw_environments R mem g0 num seed = Inl SeedError) \<or>
         (\<exists>env g'. generate_raw_environments R mem g0 num seed = Inr (env, g') \<and>
            length env = nat num \<and>
            (\<forall>row \<in> set env.
               0 \<le> row ! col_marg_cont \<and>
               row ! col_marg_cont \<le> row ! col_win_down - row ! col_win0 \<and>
               0 \<le> row ! col_marg_info \<and>
               row ! col_marg_info \<le> 1 - row ! col_win_down))"
proof (cases "seed_state R seed")
  case None
  then show ?thesis by (simp add: generate_raw_environments_def)
next
  case (Some g1)
  from assms have "0 \<le> num" by simp
  from generate_result[OF Some this, of mem g0] unif
  obtain wins ur uc ui uco g' where
    gen: "generate_raw_environments R mem g0 num seed =
       Inr (map (\<lambda>i. raw_row (wins ! i) (ur ! i) (uc ! i) (ui ! i) (uco ! i)) [0..<nat num], g')"
    and lw: "length wins = nat num" and w3: "\<forall>w \<in> set wins. length w = 3"
    and dw: "\<forall>w \<in> set wins. \<forall>x \<in> set w. 0 \<le> x \<and> x < 1"
    and du: "\<forall>i < nat num. 0 \<le> uc ! i \<and> uc ! i < 1 \<and> 0 \<le> ui ! i \<and> ui ! i < 1"
    by blast
  have "0 \<le> raw_row (wins ! i) (ur ! i) (uc ! i) (ui ! i) (uco ! i) ! col_marg_cont \<and>
         raw_row (wins ! i) (ur ! i) (uc ! i) (ui ! i) (uco ! i) ! col_marg_cont \<le>
           raw_row (wins ! i) (ur ! i) (uc ! i) (ui ! i) (uco ! i) ! col_win_down
           - raw_row (wins ! i) (ur ! i) (uc ! i) (ui ! i) (uco ! i) ! col_win0 \<and>
         0 \<le> raw_row (wins ! i) (ur ! i) (uc ! i) (ui ! i) (uco ! i) ! col_marg_info \<and>
         raw_row (wins ! i) (ur ! i) (uc ! i) (ui ! i) (uco ! i) ! col_marg_info \<le>
           1 - raw_row (wins ! i) (ur ! i) (uc ! i) (ui ! i) (uco ! i) ! col_win_down"
    if "i < nat num" for i
    by (rule raw_row_ranges) (use that lw w3 dw du in auto)
  then show ?thesis by (auto simp: gen)
qed

theorem dependent_fields_in_range_witness:
  "\<exists>env g'. generate_raw_environments counter_random zero_memory 7 2 0 = Inr (env, g') \<and>
      length env = 2 \<and>
      (\<forall>row \<in> set env.
               0 \<le> row ! col_marg_cont \<and>
               row ! col_marg_cont \<le> row ! col_win_down - row ! col_win0 \<and>
               0 \<le> row ! col_marg_info \<and>
               row ! col_marg_info \<le> 1 - row ! col_win_down)"
proof -
  have u: "\<forall>g. 0 \<le> fst (next_double counter_random g) \<and> fst (next_double counter_random g) < 1"
    by (simp add: counter_random_def)
  show ?thesis
    using dependent_fields_in_range[of 2 counter_random 0 zero_memory 7, OF _ u]
    by (simp add: counter_random_def)
qed

text \<open>
  C7, as stated, fails at N = 0: the generator does not fail there, it returns an array
  without rows.
\<close>

theorem population_size_zero_counterexample:
  "generate_raw_environments_bounded 1000 counter_random zero_memory 7 0 0 = Inr ([], 0)"
  by (simp add: generate_raw_environments_bounded_def generate_raw_environments_def
      counter_random_def np_empty_def set_columns_def set_column_def descending_sort_def
      column_def)

text \<open>
  C7, amended.  With a seed that numpy accepts, the generator fails exactly when N is
  negative, with the \<open>ValueError\<close> of the array allocation, or larger than the machine
  can allocate, with the error of that allocation; for every N from 0 up to that limit,
  N = 0 included, it returns exactly N rows of seven components.
\<close>

theorem population_size:
  assumes "seed_state R seed = Some g1"
  shows "(num < 0 \<longrightarrow>
            generate_raw_environments_bounded max_rows R mem g0 num seed = Inl NegativeDimensions) \<and>
         (0 \<le> num \<and> max_rows < nat num \<longrightarrow>
            generate_raw_environments_bounded max_rows R mem g0 num seed = Inl AllocationError) \<and>
         (0 \<le> num \<and> nat num \<le> max_rows \<longrightarrow>
            (\<exists>env g'. generate_raw_environments_bounded max_rows R mem g0 num seed = Inr (env, g') \<and>
               length env = nat num \<and> (\<forall>row \<in> set env. length row = 7)))"
proof -
  have "generate_raw_environments_bounded max_rows R mem g0 num seed = Inl NegativeDimensions"
    if "num < 0"
    using that by (simp add: generate_raw_environments_bounded_def assms)
  moreover have "generate_raw_environments_bounded max_rows R mem g0 num seed = Inl AllocationError"
    if "0 \<le> num \<and> max_rows < nat num"
    using that by (simp add: generate_raw_environments_bounded_def assms)
  moreover have "\<exists>env g'. generate_raw_environments_bounded max_rows R mem g0 num seed = Inr (env, g') \<and>
               length env = nat num \<and> (\<forall>row \<in> set env. length row = 7)"
    if n: "0 \<le> num \<and> nat num \<le> max_rows"
  proof -
    from n have "0 \<le> num" by simp
    from generate_result[OF assms this, of mem g0]
    obtain wins ur uc ui uco g' where
      gen: "generate_raw_environments R mem g0 num seed =
         Inr (map (\<lambda>i. raw_row (wins ! i) (ur ! i) (uc ! i) (ui ! i) (uco ! i)) [0..<nat num], g')"
      by blast
    have b: "generate_raw_environments_bounded max_rows R mem g0 num seed =
               generate_raw_environments R mem g0 num seed"
      using n by (simp add: generate_raw_environments_bounded_def assms)
    have "length (raw_row w a b c d) = 7" for w a b c d
      by (simp add: raw_row_def Let_def)
    then show ?thesis by (auto simp: b gen)
  qed
  ultimately show ?thesis by blast
qed

theorem population_size_witness:
  "generate_raw_environments_bounded 1000 counter_random zero_memory 7 (-1) 0
     = Inl NegativeDimensions \<and>
   generate_raw_environments_bounded 1000 counter_random zero_memory 7 1001 0
     = Inl AllocationError \<and>
   (\<exists>env g'. generate_raw_environments_bounded 1000 counter_random zero_memory 7 3 0 = Inr (env, g') \<and>
        length env = 3 \<and> (\<forall>row \<in> set env. length row = 7))"
proof -
  have s: "seed_state counter_random 0 = Some 0" by (simp add: counter_random_def)
  show ?thesis
    using population_size[OF s, of "-1" 1000 zero_memory 7]
          population_size[OF s, of 1001 1000 zero_memory 7]
          population_size[OF s, of 3 1000 zero_memory 7]
    by simp
qed

section \<open>Properties of the moment constraint\<close>

text \<open>The two products of the constraint: their shape checks and the entries of the result.\<close>

lemma matmul_chain:
  "(case matmul (transposed B) w of
      Inl e \<Rightarrow> Inl e
    | Inr rd \<Rightarrow> (case matmul M rd of Inl e \<Rightarrow> Inl e | Inr p \<Rightarrow> f p)) =
   (if n_rows B \<noteq> n_rows w \<or> n_cols M \<noteq> n_cols B then Inl ShapeError
    else f \<lparr>n_rows = n_rows M, n_cols = n_cols w, cell = weighted_moment M B w\<rparr>)"
proof (cases "n_rows B \<noteq> n_rows w \<or> n_cols M \<noteq> n_cols B")
  case True
  then show ?thesis by (auto simp: matmul_def transposed_def)
next
  case False
  then have e: "n_rows B = n_rows w" "n_cols M = n_cols B" by simp_all
  have "(\<lambda>i j. \<Sum>k < n_cols B. cell M i k * (\<Sum>ka < n_rows w. cell B ka k * cell w ka j))
          = weighted_moment M B w"
    by (intro ext) (simp add: weighted_moment_def e)
  then show ?thesis
    using e by (simp add: matmul_def transposed_def)
qed

lemma le_constraint_unfolded:
  "le_constraint lhs rhs =
     (case (broadcast_dim (n_rows lhs) (n_rows rhs), broadcast_dim (n_cols lhs) (n_cols rhs)) of
        (Some r, Some c) \<Rightarrow> Inr (\<forall>i < r. \<forall>j < c. stretched lhs i j \<le> stretched rhs i j)
      | _ \<Rightarrow> Inl ShapeError)"
  by (auto simp: le_constraint_def list_all_iff split: option.splits)

lemma moment_constraint_unfolded:
  "moment_constraint rnd M B tol w =
     (if n_rows B \<noteq> n_rows w \<or> n_cols M \<noteq> n_cols B then Inl ShapeError
      else
        (case (broadcast_dim (n_rows M) (n_rows tol), broadcast_dim (n_cols w) (n_cols tol)) of
           (Some r, Some c) \<Rightarrow>
             Inr (\<forall>i < r. \<forall>j < c.
                    100 * weighted_moment M B w (if n_rows M = 1 then 0 else i)
                                                (if n_cols w = 1 then 0 else j)
                      \<le> rnd (100 * cell tol (if n_rows tol = 1 then 0 else i)
                                             (if n_cols tol = 1 then 0 else j)))
         | _ \<Rightarrow> Inl ShapeError))"
proof (cases "n_rows B \<noteq> n_rows w \<or> n_cols M \<noteq> n_cols B")
  case True
  then show ?thesis
    unfolding moment_constraint_def matmul_chain by simp
next
  case False
  show ?thesis
    unfolding moment_constraint_def matmul_chain le_constraint_unfolded
    using False
    by (cases "broadcast_dim (n_rows M) (n_rows tol)";
        cases "broadcast_dim (n_cols w) (n_cols tol)")
       (simp_all add: Let_def scaled_def np_scaled_def stretched_def)
qed

text \<open>
  C3, as stated, fails: with the moment matrix (-1), one environment of belief 1, weight 1,
  tolerance 0 and empirical moment 0, the constraint of the code holds (-100 \<le> 0) and the
  two-sided bound of the claim does not (|-1 - 0| > 0).
\<close>

theorem moment_constraint_two_sided_counterexample:
  "moment_constraint decimal6 (array_of_rows [ [-1] ]) (array_of_rows [ [1] ])
       (array_of_rows [ [0] ]) (array_of_rows [ [1] ]) = Inr True \<and>
   \<not> spec_two_sided_constraint (array_of_rows [ [-1] ]) (array_of_rows [ [1] ])
       (array_of_rows [ [0] ]) (array_of_rows [ [0] ]) (array_of_rows [ [1] ])"
  by (simp add: moment_constraint_unfolded spec_two_sided_constraint_def array_of_rows_def
      broadcast_dim_def weighted_moment_def decimal6_def)

text \<open>
  C3, amended.  The moment constraint on the weight vector w is the one-sided
  component-wise upper bound 100 (moment_matrix (w-weighted environment moments))
  \<le> 100 tolerance: both sides carry the factor 100, the right side as a product of
  floats; there is no lower bound and no empirical moment vector is subtracted.  The two
  sides are broadcast against each other, so a tolerance of one entry bounds every
  moment; building the constraint raises when the shapes of the products or of the two
  sides do not fit.
\<close>

theorem moment_constraint_one_sided:
  "moment_constraint rnd moment_matrix beliefs tolerance w =
     (if n_rows beliefs \<noteq> n_rows w \<or> n_cols moment_matrix \<noteq> n_cols beliefs then Inl ShapeError
      else
        (case (broadcast_dim (n_rows moment_matrix) (n_rows tolerance),
               broadcast_dim (n_cols w) (n_cols tolerance)) of
           (Some r, Some c) \<Rightarrow>
             Inr (\<forall>i < r. \<forall>j < c.
                    100 * weighted_moment moment_matrix beliefs w
                            (if n_rows moment_matrix = 1 then 0 else i)
                            (if n_cols w = 1 then 0 else j)
                      \<le> rnd (100 * cell tolerance (if n_rows tolerance = 1 then 0 else i)
                                                   (if n_cols tolerance = 1 then 0 else j)))
         | _ \<Rightarrow> Inl ShapeError)) \<and>
   (n_rows w = n_rows beliefs \<and> n_cols moment_matrix = n_cols beliefs \<and>
    n_cols w = 1 \<and> n_cols tolerance = 1 \<and> n_rows tolerance = n_rows moment_matrix \<longrightarrow>
      moment_constraint rnd moment_matrix beliefs tolerance w =
        Inr (\<forall>i < n_rows moment_matrix.
               100 * weighted_moment moment_matrix beliefs w i 0 \<le> rnd (100 * cell tolerance i 0))) \<and>
   (n_rows w = n_rows beliefs \<and> n_cols moment_matrix = n_cols beliefs \<and>
    n_cols w = 1 \<and> n_cols tolerance = 1 \<and> n_rows tolerance = 1 \<longrightarrow>
      moment_constraint rnd moment_matrix beliefs tolerance w =
        Inr (\<forall>i < n_rows moment_matrix.
               100 * weighted_moment moment_matrix beliefs w i 0 \<le> rnd (100 * cell tolerance 0 0)))"
proof -
  have col: "moment_constraint rnd moment_matrix beliefs tolerance w =
        Inr (\<forall>i < n_rows moment_matrix.
               100 * weighted_moment moment_matrix beliefs w i 0 \<le> rnd (100 * cell tolerance i 0))"
    if "n_rows w = n_rows beliefs \<and> n_cols moment_matrix = n_cols beliefs \<and>
        n_cols w = 1 \<and> n_cols tolerance = 1 \<and> n_rows tolerance = n_rows moment_matrix"
    using that by (auto simp: moment_constraint_unfolded broadcast_dim_def)
  have one: "moment_constraint rnd moment_matrix beliefs tolerance w =
        Inr (\<forall>i < n_rows moment_matrix.
               100 * weighted_moment moment_matrix beliefs w i 0 \<le> rnd (100 * cell tolerance 0 0))"
    if "n_rows w = n_rows beliefs \<and> n_cols moment_matrix = n_cols beliefs \<and>
        n_cols w = 1 \<and> n_cols tolerance = 1 \<and> n_rows tolerance = 1"
    using that by (auto simp: moment_constraint_unfolded broadcast_dim_def)
  show ?thesis
  proof (intro conjI impI)
    show "moment_constraint rnd moment_matrix beliefs tolerance w =
     (if n_rows beliefs \<noteq> n_rows w \<or> n_cols moment_matrix \<noteq> n_cols beliefs then Inl ShapeError
      else
        (case (broadcast_dim (n_rows moment_matrix) (n_rows tolerance),
               broadcast_dim (n_cols w) (n_cols tolerance)) of
           (Some r, Some c) \<Rightarrow>
             Inr (\<forall>i < r. \<forall>j < c.
                    100 * weighted_moment moment_matrix beliefs w
                            (if n_rows moment_matrix = 1 then 0 else i)
                            (if n_cols w = 1 then 0 else j)
                      \<le> rnd (100 * cell tolerance (if n_rows tolerance = 1 then 0 else i)
                                                   (if n_cols tolerance = 1 then 0 else j)))
         | _ \<Rightarrow> Inl ShapeError))"
      by (rule moment_constraint_unfolded)
  qed (use col one in blast)+
qed


theorem moment_constraint_one_sided_witness:
  "moment_constraint decimal6 (array_of_rows [ [1, 0], [0, 1] ])
       (array_of_rows [ [0.5, 0.25], [0.25, 0.5] ]) (array_of_rows [ [0.5] ])
       (array_of_rows [ [0.5], [0.5] ]) = Inr True \<and>
   moment_constraint decimal6 (array_of_rows [ [1, 0], [0, 1] ])
       (array_of_rows [ [0.5, 0.25], [0.25, 0.5] ]) (array_of_rows [ [0.5], [0.3] ])
       (array_of_rows [ [0.5], [0.5] ]) = Inr False \<and>
   moment_constraint decimal6 (array_of_rows [ [1, 0], [0, 1] ])
       (array_of_rows [ [0.5, 0.25], [0.25, 0.5] ]) (array_of_rows [ [0.5], [0.5], [0.5] ])
       (array_of_rows [ [0.5], [0.5] ]) = Inl ShapeError"
proof -
  let ?M = "array_of_rows [ [1, 0], [0, 1] ]"
  let ?B = "array_of_rows [ [0.5, 0.25], [0.25, 0.5] ]"
  let ?w = "array_of_rows [ [0.5], [0.5] ]"
  have wm: "weighted_moment ?M ?B ?w 0 0 = 0.375" "weighted_moment ?M ?B ?w 1 0 = 0.375"
    by (simp_all add: weighted_moment_def array_of_rows_def)
  have two: "(\<forall>i<2. P i) = (P 0 \<and> P (1::nat))" for P
    by (auto simp: less_Suc_eq numeral_2_eq_2)
  have shapes: "n_rows ?w = n_rows ?B" "n_cols ?M = n_cols ?B" "n_cols ?w = 1" "n_rows ?M = 2"
    by (simp_all add: array_of_rows_def)
  have t1: "n_cols (array_of_rows [ [0.5 :: real] ]) = 1" "n_rows (array_of_rows [ [0.5 :: real] ]) = 1"
           "cell (array_of_rows [ [0.5 :: real] ]) 0 0 = 0.5"
    by (simp_all add: array_of_rows_def)
  have t2: "n_cols (array_of_rows [ [0.5 :: real], [0.3] ]) = 1"
           "n_rows (array_of_rows [ [0.5 :: real], [0.3] ]) = 2"
           "cell (array_of_rows [ [0.5 :: real], [0.3] ]) 0 0 = 0.5"
           "cell (array_of_rows [ [0.5 :: real], [0.3] ]) 1 0 = 0.3"
    by (simp_all add: array_of_rows_def)
  have t3: "n_cols (array_of_rows [ [0.5 :: real], [0.5], [0.5] ]) = 1"
           "n_rows (array_of_rows [ [0.5 :: real], [0.5], [0.5] ]) = 3"
    by (simp_all add: array_of_rows_def)
  have r1: "decimal6 (100 * 0.5) = 50" "decimal6 (100 * 0.3) = 30"
    by (simp_all add: decimal6_def)
  let ?t1 = "array_of_rows [ [0.5 :: real] ]"
  let ?t2 = "array_of_rows [ [0.5 :: real], [0.3] ]"
  let ?t3 = "array_of_rows [ [0.5 :: real], [0.5], [0.5] ]"
  have "moment_constraint decimal6 ?M ?B ?t1 ?w =
          Inr (\<forall>i < n_rows ?M. 100 * weighted_moment ?M ?B ?w i 0 \<le> decimal6 (100 * cell ?t1 0 0))"
    using moment_constraint_one_sided[of decimal6 ?M ?B ?t1 ?w] shapes(1,2,3) t1(1,2) by blast
  also have "\<dots> = Inr True"
    by (simp only: shapes(4) two wm t1 r1) simp
  finally have a: "moment_constraint decimal6 ?M ?B ?t1 ?w = Inr True" .
  have e: "n_rows ?t2 = n_rows ?M" by (simp only: t2 shapes)
  have "moment_constraint decimal6 ?M ?B ?t2 ?w =
          Inr (\<forall>i < n_rows ?M. 100 * weighted_moment ?M ?B ?w i 0 \<le> decimal6 (100 * cell ?t2 i 0))"
    using moment_constraint_one_sided[of decimal6 ?M ?B ?t2 ?w] shapes(1,2,3) t2(1) e by blast
  also have "\<dots> = Inr False"
    by (simp only: shapes(4) two wm t2 r1) simp
  finally have b: "moment_constraint decimal6 ?M ?B ?t2 ?w = Inr False" .
  have "moment_constraint decimal6 ?M ?B ?t3 ?w =
     (if n_rows ?B \<noteq> n_rows ?w \<or> n_cols ?M \<noteq> n_cols ?B then Inl ShapeError
      else
        (case (broadcast_dim (n_rows ?M) (n_rows ?t3), broadcast_dim (n_cols ?w) (n_cols ?t3)) of
           (Some r, Some c) \<Rightarrow>
             Inr (\<forall>i < r. \<forall>j < c.
                    100 * weighted_moment ?M ?B ?w
                            (if n_rows ?M = 1 then 0 else i)
                            (if n_cols ?w = 1 then 0 else j)
                      \<le> decimal6 (100 * cell ?t3 (if n_rows ?t3 = 1 then 0 else i)
                                                   (if n_cols ?t3 = 1 then 0 else j)))
         | _ \<Rightarrow> Inl ShapeError))"
    by (rule moment_constraint_one_sided[of decimal6 ?M ?B ?t3 ?w, THEN conjunct1])
  also have "\<dots> = Inl ShapeError"
    by (simp only: shapes t3) (simp add: broadcast_dim_def)
  finally have c: "moment_constraint decimal6 ?M ?B ?t3 ?w = Inl ShapeError" .
  from a b c show ?thesis by blast
qed

section \<open>Properties of the grid solve\<close>

lemma length_fold_update:
  "length (fold (\<lambda>i out. out[i := f i]) cs init) = length init"
  by (induction cs arbitrary: init) auto

lemma nth_fold_update:
  "j < length init \<Longrightarrow>
   fold (\<lambda>i out. out[i := f i]) cs init ! j = (if j \<in> set cs then f j else init ! j)"
proof (induction cs arbitrary: init)
  case Nil
  then show ?case by simp
next
  case (Cons c cs)
  have "j < length (init[c := f c])" using Cons.prems by simp
  from Cons.IH[OF this] show ?case
    using Cons.prems by (auto simp: nth_list_update)
qed

text \<open>
  C9.  For every list of N parameter points, once the solve of every point has finished,
  in whatever order, the grid solve returns exactly N entries, entry \<open>i\<close> is the result
  of point \<open>i\<close>, and a point whose solve is infeasible has the flagged entry without
  value at its index.
\<close>

theorem solve_grid_index_aligned:
  assumes "set completion = {..<length parameter_points}"
  shows "length (solve_grid solve completion parameter_points) = length parameter_points \<and>
         (\<forall>i < length parameter_points.
            solve_grid solve completion parameter_points ! i = capture (solve (parameter_points ! i)) \<and>
            (solve (parameter_points ! i) = Inl Infeasible \<longrightarrow>
               solve_grid solve completion parameter_points ! i = flagged))"
proof -
  have "solve_grid solve completion parameter_points ! i = capture (solve (parameter_points ! i))"
    if "i < length parameter_points" for i
    using that assms by (simp add: solve_grid_def nth_fold_update)
  moreover have "capture (Inl Infeasible) = flagged" by (simp add: capture_def)
  ultimately show ?thesis
    by (simp add: solve_grid_def length_fold_update)
qed

theorem solve_grid_index_aligned_witness:
  "solve_grid (\<lambda>p. if p < 0 then Inl Infeasible else Inr (p, False)) [2, 0, 1] [0.5, -1, 0.25 :: real] =
     [\<lparr>objective_value = Some 0.5, tie_flag = False, feasible = True\<rparr>,
      flagged,
      \<lparr>objective_value = Some 0.25, tie_flag = False, feasible = True\<rparr>]"
proof -
  have s: "set [2, 0, 1 :: nat] = {..<length [0.5, -1, 0.25 :: real]}" by auto
  have n3: "\<And>i P. (\<forall>i<3. P i) = (P 0 \<and> P 1 \<and> P (2::nat))"
    by (auto simp: less_Suc_eq numeral_3_eq_3 numeral_2_eq_2)
  from solve_grid_index_aligned[OF s, of "\<lambda>p. if p < 0 then Inl Infeasible else Inr (p, False)"]
  have l: "length (solve_grid (\<lambda>p. if p < 0 then Inl Infeasible else Inr (p, False)) [2, 0, 1] [0.5, -1, 0.25 :: real]) = 3"
   and e: "\<forall>i<3. solve_grid (\<lambda>p. if p < 0 then Inl Infeasible else Inr (p, False)) [2, 0, 1] [0.5, -1, 0.25 :: real] ! i
            = capture ((\<lambda>p. if p < 0 then Inl Infeasible else Inr (p, False)) ([0.5, -1, 0.25 :: real] ! i))"
    by simp_all
  show ?thesis
    apply (rule nth_equalityI)
    using l apply simp
    using e[unfolded n3] l
    apply (auto simp: less_Suc_eq numeral_3_eq_3 numeral_2_eq_2 capture_def)
    done
qed

section \<open>Properties of the standard deviation\<close>







end
